theory Spec2Isabelle
  imports Main "HOL-Library.Word"
begin

unbundle bit_operations_syntax

section \<open>Data model of \<open>framework/encode/d3d12_capture_manager.h\<close>\<close>

text \<open>
  A C++ pointer is either \<open>nullptr\<close> or points to a value. A pointer to a pointer
  (\<open>void** handle\<close>) is a \<open>pointer\<close> of a \<open>pointer\<close>, so that the test
  \<open>handle != nullptr && *handle != nullptr\<close> holds exactly for \<open>Ptr (Ptr h)\<close>.
\<close>

datatype 'a pointer = nullptr | Ptr 'a

type_synonym ThreadId = nat
type_synonym Wrapper = nat \<comment> \<open>the address of a wrapper object\<close>
type_synonym IID = nat \<comment> \<open>an interface identifier (\<open>REFIID\<close>)\<close>
type_synonym HandleId = "64 word" \<comment> \<open>\<open>format::HandleId\<close>\<close>
type_synonym ApiCallId = "32 word"
type_synonym HRESULT = "32 word" \<comment> \<open>a signed 32-bit result code\<close>
type_synonym ParameterBuffer = "8 word list"

text \<open>
  \<open>SUCCEEDED\<close> is the platform's macro \<open>((HRESULT)(hr)) >= 0\<close>: the result code read
  as a signed number is not negative.
\<close>

definition SUCCEEDED :: "HRESULT \<Rightarrow> bool" where
  "SUCCEEDED hr \<longleftrightarrow> 0 \<le> sint hr"

text \<open>
  The per-thread data of the base class \<open>CaptureManager\<close>, as far as this header reads
  it: \<open>thread_data->call_id_\<close> and \<open>thread_data->parameter_buffer_.get()\<close>.
\<close>

record ThreadData =
  call_id :: ApiCallId
  parameter_buffer :: ParameterBuffer

text \<open>
  \<open>Dx12StateTracker\<close> is declared in \<open>encode/dx12_state_tracker.h\<close>, which is not part
  of the sources at hand. The tracker is represented by the calls it has received, in the
  order of their arrival, each with the arguments the capture manager passed.
\<close>

datatype tracker_call =
    AddEntry IID "Wrapper pointer pointer" ApiCallId Wrapper ParameterBuffer
  | TrackCommand Wrapper ApiCallId ParameterBuffer nat "nat list"
  | RemoveEntry Wrapper
  | TrackRelease Wrapper

record Dx12StateTracker =
  received :: "tracker_call list"

datatype D3D12_DRED_ENABLEMENT =
    D3D12_DRED_ENABLEMENT_SYSTEM_CONTROLLED
  | D3D12_DRED_ENABLEMENT_FORCED_OFF
  | D3D12_DRED_ENABLEMENT_FORCED_ON

text \<open>
  Modelled from the spec: \<open>EnableDREDInfo\<close> is declared outside this header. The spec
  describes it as the last-configured device-removal-diagnostics settings, recorded as
  effective values keyed by an object id; the three enablement values are those of the three
  post-process hooks the header declares for the settings interface.
\<close>

record EnableDREDInfo =
  dred_settings1_object_id :: HandleId
  set_auto_breadcrumbs_enablement :: D3D12_DRED_ENABLEMENT
  set_breadcrumb_context_enablement :: D3D12_DRED_ENABLEMENT
  set_page_fault_enablement :: D3D12_DRED_ENABLEMENT

text \<open>
  The state of the capture manager. A member \<open>name_\<close> of the class is the field
  \<open>name\<close> here, since a name of the logic cannot end in an underscore.
  \<^item> \<open>call_scope_\<close> is \<open>static thread_local\<close>: one counter for each thread.
  \<^item> \<open>mapped_resources_\<close> is a \<open>std::set\<close> of wrapper pointers, kept as the list of its
    entries.
  \<^item> \<open>capture_mode_\<close> and \<open>thread_data\<close> belong to the base class \<open>CaptureManager\<close> and
    are read through \<open>GetCaptureMode()\<close> and \<open>GetThreadData()\<close>.
  \<^item> \<open>ended_calls\<close> is the sequence of call records handed to the trace sink, each named
    by the thread that issued it; \<open>frame_captures\<close> is the sequence of requests made to
    the image renderer, each named by its swap chain; \<open>screenshots_enabled\<close> is the
    capture configuration for frame captures.
  \<^item> \<open>live_wrappers\<close> is the store of the wrapper objects that have not been released,
    each with its capture id; \<open>child_images\<close> is the buffer array of each swap chain.
\<close>

record D3D12CaptureManager =
  capture_mode :: "32 word"
  thread_data :: "ThreadId \<Rightarrow> ThreadData pointer"
  call_scope :: "ThreadId \<Rightarrow> 32 word"
  state_tracker :: "Dx12StateTracker pointer"
  mapped_resources :: "Wrapper list"
  track_enable_debug_layer_object_id :: HandleId
  track_enable_dred_info :: EnableDREDInfo
  ended_calls :: "ThreadId list"
  frame_captures :: "Wrapper list"
  screenshots_enabled :: bool
  live_wrappers :: "Wrapper \<rightharpoonup> HandleId"
  child_images :: "Wrapper \<Rightarrow> Wrapper list"

datatype error = AssertionFailed | NullPointerDereference

section \<open>Call scope\<close>

text \<open>
  \<open>uint32_t IncrementCallScope() { return ++call_scope_; }\<close> and
  \<open>uint32_t DecrementCallScope() { return --call_scope_; }\<close>, run by thread \<open>t\<close>: the
  returned value and the state after the call.
\<close>

definition IncrementCallScope :: "ThreadId \<Rightarrow> D3D12CaptureManager \<Rightarrow> 32 word \<times> D3D12CaptureManager" where
  "IncrementCallScope t s =
     (let d = call_scope s t + 1 in (d, s\<lparr>call_scope := (call_scope s)(t := d)\<rparr>))"

definition DecrementCallScope :: "ThreadId \<Rightarrow> D3D12CaptureManager \<Rightarrow> 32 word \<times> D3D12CaptureManager" where
  "DecrementCallScope t s =
     (let d = call_scope s t - 1 in (d, s\<lparr>call_scope := (call_scope s)(t := d)\<rparr>))"


section \<open>End of a call: creation, command list, destruction\<close>

definition GetCaptureMode :: "D3D12CaptureManager \<Rightarrow> 32 word" where
  "GetCaptureMode s = capture_mode s"

definition GetThreadData :: "ThreadId \<Rightarrow> D3D12CaptureManager \<Rightarrow> ThreadData pointer" where
  "GetThreadData t s = thread_data s t"

text \<open>
  Modelled from the spec: \<open>EndMethodCallCapture\<close> is a member of the base class
  \<open>CaptureManager\<close>, whose code is not part of the sources at hand. The spec: "Regardless
  of outcome, finalize the call record (encode and hand off to the trace sink)". Each run
  adds one record, of the calling thread, to the trace sink.
\<close>

definition EndMethodCallCapture :: "ThreadId \<Rightarrow> D3D12CaptureManager \<Rightarrow> D3D12CaptureManager" where
  "EndMethodCallCapture t s = s\<lparr>ended_calls := ended_calls s @ [t]\<rparr>"

definition tracker_receive :: "tracker_call \<Rightarrow> Dx12StateTracker \<Rightarrow> Dx12StateTracker" where
  "tracker_receive c tr = tr\<lparr>received := received tr @ [c]\<rparr>"

text \<open>
  \<open>EndCreateMethodCallCapture(result, riid, handle, create_object_wrapper)\<close>, run by thread
  \<open>t\<close>. The constant \<open>kModeTrack\<close> of the base class is a parameter. A failed
  \<open>assert\<close> ends the run with \<open>AssertionFailed\<close>.
\<close>

definition EndCreateMethodCallCapture ::
  "32 word \<Rightarrow> ThreadId \<Rightarrow> HRESULT \<Rightarrow> IID \<Rightarrow> Wrapper pointer pointer \<Rightarrow> Wrapper
     \<Rightarrow> D3D12CaptureManager \<Rightarrow> error + D3D12CaptureManager" where
  "EndCreateMethodCallCapture kModeTrack t result riid handle create_object_wrapper s =
     (if (GetCaptureMode s AND kModeTrack) = kModeTrack \<and> SUCCEEDED result then
        (case handle of
           Ptr (Ptr h) \<Rightarrow>
             (case state_tracker s of
                nullptr \<Rightarrow> Inl AssertionFailed
              | Ptr tr \<Rightarrow>
                  (case GetThreadData t s of
                     nullptr \<Rightarrow> Inl AssertionFailed
                   | Ptr td \<Rightarrow>
                       Inr (EndMethodCallCapture t
                         (s\<lparr>state_tracker := Ptr (tracker_receive
                            (AddEntry riid handle (call_id td) create_object_wrapper
                               (parameter_buffer td)) tr)\<rparr>))))
         | _ \<Rightarrow> Inr (EndMethodCallCapture t s))
      else Inr (EndMethodCallCapture t s))"

text \<open>
  The template \<open>EndCommandListMethodCallCapture(list_wrapper, func, args...)\<close>; the
  extraction function is named by a number and its arguments are a list.
\<close>

definition EndCommandListMethodCallCapture ::
  "32 word \<Rightarrow> ThreadId \<Rightarrow> Wrapper \<Rightarrow> nat \<Rightarrow> nat list
     \<Rightarrow> D3D12CaptureManager \<Rightarrow> error + D3D12CaptureManager" where
  "EndCommandListMethodCallCapture kModeTrack t list_wrapper func args s =
     (if (GetCaptureMode s AND kModeTrack) = kModeTrack then
        (case state_tracker s of
           nullptr \<Rightarrow> Inl AssertionFailed
         | Ptr tr \<Rightarrow>
             (case GetThreadData t s of
                nullptr \<Rightarrow> Inl AssertionFailed
              | Ptr td \<Rightarrow>
                  Inr (EndMethodCallCapture t
                    (s\<lparr>state_tracker := Ptr (tracker_receive
                       (TrackCommand list_wrapper (call_id td) (parameter_buffer td) func args)
                       tr)\<rparr>))))
      else Inr (EndMethodCallCapture t s))"

text \<open>
  \<open>ProcessWrapperDestroy(wrapper)\<close>. It has no assertion: with the tracking bit set and
  no state tracker, \<open>state_tracker_->RemoveEntry\<close> dereferences a null pointer.
\<close>

definition ProcessWrapperDestroy ::
  "32 word \<Rightarrow> Wrapper \<Rightarrow> D3D12CaptureManager \<Rightarrow> error + D3D12CaptureManager" where
  "ProcessWrapperDestroy kModeTrack wrapper s =
     (if (GetCaptureMode s AND kModeTrack) = kModeTrack then
        (case state_tracker s of
           nullptr \<Rightarrow> Inl NullPointerDereference
         | Ptr tr \<Rightarrow>
             Inr (s\<lparr>state_tracker := Ptr (tracker_receive (TrackRelease wrapper)
                    (tracker_receive (RemoveEntry wrapper) tr))\<rparr>))
      else Inr s)"

text \<open>What the state tracker has received so far; nothing when there is no tracker.\<close>

definition tracker_calls :: "D3D12CaptureManager \<Rightarrow> tracker_call list" where
  "tracker_calls s = (case state_tracker s of nullptr \<Rightarrow> [] | Ptr tr \<Rightarrow> received tr)"

fun is_AddEntry :: "tracker_call \<Rightarrow> bool" where
  "is_AddEntry (AddEntry _ _ _ _ _) = True"
| "is_AddEntry _ = False"

fun is_RemoveEntry :: "tracker_call \<Rightarrow> bool" where
  "is_RemoveEntry (RemoveEntry _) = True"
| "is_RemoveEntry _ = False"

text \<open>
  The conditions the two assertions of the end-of-call functions state: when the tracking
  bit is set, the state tracker exists and the calling thread has its data.
\<close>

definition tracker_ready :: "32 word \<Rightarrow> ThreadId \<Rightarrow> D3D12CaptureManager \<Rightarrow> bool" where
  "tracker_ready kModeTrack t s \<longleftrightarrow>
     ((GetCaptureMode s AND kModeTrack) = kModeTrack \<longrightarrow>
        state_tracker s \<noteq> nullptr \<and> GetThreadData t s \<noteq> nullptr)"


section \<open>Presentation\<close>

text \<open>
  Modelled from the spec: \<open>TakeScreenshot\<close>, \<open>PostPresent\<close> and
  \<open>PostProcess_IDXGISwapChain_Present\<close> are declared in the header and defined in
  \<open>d3d12_capture_manager.cpp\<close>, which is not part of the sources at hand. The spec: "After
  a successful present, the manager may trigger an out-of-band frame capture delegated to an
  external image renderer, gated to top-level calls only (call-scope depth 1) and to capture
  configuration; failure of this capture must never alter the reported present result."
\<close>

definition TakeScreenshot :: "Wrapper \<Rightarrow> D3D12CaptureManager \<Rightarrow> D3D12CaptureManager" where
  "TakeScreenshot swapchain_wrapper s = s\<lparr>frame_captures := frame_captures s @ [swapchain_wrapper]\<rparr>"

definition PostPresent :: "ThreadId \<Rightarrow> Wrapper \<Rightarrow> D3D12CaptureManager \<Rightarrow> D3D12CaptureManager" where
  "PostPresent t wrapper s =
     (if call_scope s t = 1 \<and> screenshots_enabled s then TakeScreenshot wrapper s else s)"

definition PostProcess_IDXGISwapChain_Present ::
  "ThreadId \<Rightarrow> Wrapper \<Rightarrow> HRESULT \<Rightarrow> 32 word \<Rightarrow> 32 word
     \<Rightarrow> D3D12CaptureManager \<Rightarrow> D3D12CaptureManager" where
  "PostProcess_IDXGISwapChain_Present t wrapper result sync_interval flags s =
     (if SUCCEEDED result then PostPresent t wrapper s else s)"

text \<open>
  Modelled from the spec: the forwarding stub of \<open>Present\<close> is generated code, not part of
  the sources at hand. The spec: "application call, stub increments call-scope, pre-process
  hook, native call via dispatch table, post-process hook (registry update, call record
  emission), call-scope decrement". \<open>native_result\<close> is what the driver returned; the stub
  returns it unchanged.
\<close>

definition IDXGISwapChain_Wrapper_Present ::
  "ThreadId \<Rightarrow> Wrapper \<Rightarrow> HRESULT \<Rightarrow> 32 word \<Rightarrow> 32 word
     \<Rightarrow> D3D12CaptureManager \<Rightarrow> HRESULT \<times> D3D12CaptureManager" where
  "IDXGISwapChain_Wrapper_Present t wrapper native_result sync_interval flags s =
     (let s1 = snd (IncrementCallScope t s);
          s2 = EndMethodCallCapture t s1;
          s3 = PostProcess_IDXGISwapChain_Present t wrapper native_result sync_interval flags s2;
          s4 = snd (DecrementCallScope t s3)
      in (native_result, s4))"

section \<open>Mapped resources\<close>

text \<open>
  \<open>std::set::insert\<close> adds a key that the set does not hold yet; \<open>std::set::erase\<close>
  removes the key.
\<close>

definition set_insert :: "'a \<Rightarrow> 'a list \<Rightarrow> 'a list" where
  "set_insert x xs = (if x \<in> set xs then xs else x # xs)"

definition set_erase :: "'a \<Rightarrow> 'a list \<Rightarrow> 'a list" where
  "set_erase x xs = removeAll x xs"

text \<open>
  Modelled from the spec: \<open>PostProcess_ID3D12Resource_Map\<close> and
  \<open>PreProcess_ID3D12Resource_Unmap\<close> are declared in the header and defined in
  \<open>d3d12_capture_manager.cpp\<close>, which is not part of the sources at hand. The spec: "on a
  successful map (non-null pointer returned), the resource is added to a set of currently
  mapped resources [...] On unmap, the resource is removed from the set". The capture of the
  mapped content at unmap goes to the trace sink and leaves the set as it is.
\<close>

definition PostProcess_ID3D12Resource_Map ::
  "Wrapper \<Rightarrow> HRESULT \<Rightarrow> 32 word \<Rightarrow> (nat \<times> nat) pointer \<Rightarrow> nat pointer pointer
     \<Rightarrow> D3D12CaptureManager \<Rightarrow> D3D12CaptureManager" where
  "PostProcess_ID3D12Resource_Map wrapper result subresource read_range data s =
     (if SUCCEEDED result then
        (case data of
           Ptr (Ptr p) \<Rightarrow> s\<lparr>mapped_resources := set_insert wrapper (mapped_resources s)\<rparr>
         | _ \<Rightarrow> s)
      else s)"

definition PreProcess_ID3D12Resource_Unmap ::
  "Wrapper \<Rightarrow> 32 word \<Rightarrow> (nat \<times> nat) pointer
     \<Rightarrow> D3D12CaptureManager \<Rightarrow> D3D12CaptureManager" where
  "PreProcess_ID3D12Resource_Unmap wrapper subresource written_range s =
     s\<lparr>mapped_resources := set_erase wrapper (mapped_resources s)\<rparr>"

section \<open>Swap chain buffers\<close>

text \<open>A loop over a list whose body may fail: the first failure ends the loop.\<close>

fun for_each :: "('a \<Rightarrow> 's \<Rightarrow> error + 's) \<Rightarrow> 'a list \<Rightarrow> 's \<Rightarrow> error + 's" where
  "for_each f [] s = Inr s"
| "for_each f (x # xs) s = (case f x s of Inl e \<Rightarrow> Inl e | Inr s' \<Rightarrow> for_each f xs s')"

text \<open>The interface identifier of \<open>ID3D12Resource\<close>, read as one number.\<close>

definition IID_ID3D12Resource :: IID where
  "IID_ID3D12Resource = 0x696442bea72e4059bc795b5c98040fad"

text \<open>
  Modelled from the spec: \<open>ReleaseSwapChainImages\<close>, \<open>PreAcquireSwapChainImages\<close>,
  \<open>ResizeSwapChainImages\<close> and the two hooks of \<open>ResizeBuffers\<close> are declared in the header
  and defined in \<open>d3d12_capture_manager.cpp\<close>, which is not part of the sources at hand. The
  spec: "On a resize request, the manager first deregisters the current buffer set (the
  native resize call fails if external references to the old buffers remain), performs the
  resize, then re-registers the new buffer array sized to the new buffer count, format, and
  dimensions", and "every hook checks the tracking bit before paying registry-update cost".
  A buffer is deregistered the way the header deregisters any wrapper, by
  \<open>ProcessWrapperDestroy\<close>. A new buffer is the one the driver gives for its index
  (\<open>get_buffer\<close>); when the tracking bit is set it is registered with the state tracker
  under the call id and the parameter bytes of the calling thread, with the swap chain as
  the creating object.
\<close>

definition ReleaseSwapChainImages ::
  "32 word \<Rightarrow> Wrapper \<Rightarrow> D3D12CaptureManager \<Rightarrow> error + D3D12CaptureManager" where
  "ReleaseSwapChainImages kModeTrack wrapper s =
     (case for_each (ProcessWrapperDestroy kModeTrack) (child_images s wrapper) s of
        Inl e \<Rightarrow> Inl e
      | Inr s' \<Rightarrow> Inr (s'\<lparr>child_images := (child_images s')(wrapper := [])\<rparr>))"

definition AcquireSwapChainImage ::
  "32 word \<Rightarrow> ThreadId \<Rightarrow> Wrapper \<Rightarrow> (nat \<Rightarrow> Wrapper) \<Rightarrow> nat
     \<Rightarrow> D3D12CaptureManager \<Rightarrow> error + D3D12CaptureManager" where
  "AcquireSwapChainImage kModeTrack t wrapper get_buffer i s =
     (let s1 = s\<lparr>child_images := (child_images s)(wrapper := child_images s wrapper @ [get_buffer i])\<rparr>
      in if (GetCaptureMode s AND kModeTrack) = kModeTrack then
           (case state_tracker s of
              nullptr \<Rightarrow> Inl AssertionFailed
            | Ptr tr \<Rightarrow>
                (case GetThreadData t s of
                   nullptr \<Rightarrow> Inl AssertionFailed
                 | Ptr td \<Rightarrow>
                     Inr (s1\<lparr>state_tracker := Ptr (tracker_receive
                            (AddEntry IID_ID3D12Resource (Ptr (Ptr (get_buffer i))) (call_id td)
                               wrapper (parameter_buffer td)) tr)\<rparr>)))
         else Inr s1)"

definition PreAcquireSwapChainImages ::
  "32 word \<Rightarrow> ThreadId \<Rightarrow> Wrapper \<Rightarrow> (nat \<Rightarrow> Wrapper) \<Rightarrow> 32 word
     \<Rightarrow> D3D12CaptureManager \<Rightarrow> error + D3D12CaptureManager" where
  "PreAcquireSwapChainImages kModeTrack t wrapper get_buffer image_count s =
     for_each (AcquireSwapChainImage kModeTrack t wrapper get_buffer) [0..<unat image_count]
       (s\<lparr>child_images := (child_images s)(wrapper := [])\<rparr>)"

definition ResizeSwapChainImages ::
  "32 word \<Rightarrow> ThreadId \<Rightarrow> Wrapper \<Rightarrow> (nat \<Rightarrow> Wrapper) \<Rightarrow> HRESULT \<Rightarrow> 32 word
     \<Rightarrow> D3D12CaptureManager \<Rightarrow> error + D3D12CaptureManager" where
  "ResizeSwapChainImages kModeTrack t wrapper get_buffer result buffer_count s =
     (if SUCCEEDED result
      then PreAcquireSwapChainImages kModeTrack t wrapper get_buffer buffer_count s
      else Inr s)"

definition PreProcess_IDXGISwapChain_ResizeBuffers ::
  "32 word \<Rightarrow> Wrapper \<Rightarrow> 32 word \<Rightarrow> 32 word \<Rightarrow> 32 word \<Rightarrow> nat \<Rightarrow> 32 word
     \<Rightarrow> D3D12CaptureManager \<Rightarrow> error + D3D12CaptureManager" where
  "PreProcess_IDXGISwapChain_ResizeBuffers kModeTrack wrapper buffer_count width height
       new_format flags s =
     ReleaseSwapChainImages kModeTrack wrapper s"

definition PostProcess_IDXGISwapChain_ResizeBuffers ::
  "32 word \<Rightarrow> ThreadId \<Rightarrow> Wrapper \<Rightarrow> (nat \<Rightarrow> Wrapper) \<Rightarrow> HRESULT
     \<Rightarrow> 32 word \<Rightarrow> 32 word \<Rightarrow> 32 word \<Rightarrow> nat \<Rightarrow> 32 word
     \<Rightarrow> D3D12CaptureManager \<Rightarrow> error + D3D12CaptureManager" where
  "PostProcess_IDXGISwapChain_ResizeBuffers kModeTrack t wrapper get_buffer result buffer_count
       width height new_format flags s =
     ResizeSwapChainImages kModeTrack t wrapper get_buffer result buffer_count s"


section \<open>Diagnostic settings\<close>

text \<open>
  \<open>GetEnableDebugLayerObjectId()\<close> and \<open>GetEnableDREDInfo()\<close> return the members as they
  are stored.
\<close>

definition GetEnableDebugLayerObjectId :: "D3D12CaptureManager \<Rightarrow> HandleId" where
  "GetEnableDebugLayerObjectId s = track_enable_debug_layer_object_id s"

definition GetEnableDREDInfo :: "D3D12CaptureManager \<Rightarrow> EnableDREDInfo" where
  "GetEnableDREDInfo s = track_enable_dred_info s"

text \<open>
  Modelled from the spec: the post-process hooks of \<open>EnableDebugLayer\<close> and of the three
  settings of the device-removal diagnostics are declared in the header and defined in
  \<open>d3d12_capture_manager.cpp\<close>, which is not part of the sources at hand. The spec: the
  settings "are one-way recorded as effective values keyed by an object id, not by a live
  reference". Each hook reads the capture id of the configuring wrapper, which must be a
  live object, and stores it with the value configured.
\<close>

definition PostProcess_ID3D12Debug_EnableDebugLayer ::
  "Wrapper \<Rightarrow> D3D12CaptureManager \<Rightarrow> error + D3D12CaptureManager" where
  "PostProcess_ID3D12Debug_EnableDebugLayer debug_wrapper s =
     (case live_wrappers s debug_wrapper of
        None \<Rightarrow> Inl NullPointerDereference
      | Some object_id \<Rightarrow> Inr (s\<lparr>track_enable_debug_layer_object_id := object_id\<rparr>))"

definition PostProcess_ID3D12DeviceRemovedExtendedDataSettings_SetAutoBreadcrumbsEnablement ::
  "Wrapper \<Rightarrow> D3D12_DRED_ENABLEMENT \<Rightarrow> D3D12CaptureManager \<Rightarrow> error + D3D12CaptureManager" where
  "PostProcess_ID3D12DeviceRemovedExtendedDataSettings_SetAutoBreadcrumbsEnablement
       dred_wrapper enablement s =
     (case live_wrappers s dred_wrapper of
        None \<Rightarrow> Inl NullPointerDereference
      | Some object_id \<Rightarrow>
          Inr (s\<lparr>track_enable_dred_info := (track_enable_dred_info s)
                 \<lparr>dred_settings1_object_id := object_id,
                  set_auto_breadcrumbs_enablement := enablement\<rparr>\<rparr>))"

definition PostProcess_ID3D12DeviceRemovedExtendedDataSettings1_SetBreadcrumbContextEnablement ::
  "Wrapper \<Rightarrow> D3D12_DRED_ENABLEMENT \<Rightarrow> D3D12CaptureManager \<Rightarrow> error + D3D12CaptureManager" where
  "PostProcess_ID3D12DeviceRemovedExtendedDataSettings1_SetBreadcrumbContextEnablement
       dred1_wrapper enablement s =
     (case live_wrappers s dred1_wrapper of
        None \<Rightarrow> Inl NullPointerDereference
      | Some object_id \<Rightarrow>
          Inr (s\<lparr>track_enable_dred_info := (track_enable_dred_info s)
                 \<lparr>dred_settings1_object_id := object_id,
                  set_breadcrumb_context_enablement := enablement\<rparr>\<rparr>))"

definition PostProcess_ID3D12DeviceRemovedExtendedDataSettings_SetPageFaultEnablement ::
  "Wrapper \<Rightarrow> D3D12_DRED_ENABLEMENT \<Rightarrow> D3D12CaptureManager \<Rightarrow> error + D3D12CaptureManager" where
  "PostProcess_ID3D12DeviceRemovedExtendedDataSettings_SetPageFaultEnablement
       dred_wrapper enablement s =
     (case live_wrappers s dred_wrapper of
        None \<Rightarrow> Inl NullPointerDereference
      | Some object_id \<Rightarrow>
          Inr (s\<lparr>track_enable_dred_info := (track_enable_dred_info s)
                 \<lparr>dred_settings1_object_id := object_id,
                  set_page_fault_enablement := enablement\<rparr>\<rparr>))"

text \<open>
  Modelled from the spec: the release of a wrapper object is generated code, not part of the
  sources at hand. The spec: "the configuring object is commonly released almost immediately
  after configuring it". The release runs \<open>ProcessWrapperDestroy\<close> of the header, and then
  the object is no longer in the store of live wrappers.
\<close>

definition DestroyWrappedObject ::
  "32 word \<Rightarrow> Wrapper \<Rightarrow> D3D12CaptureManager \<Rightarrow> error + D3D12CaptureManager" where
  "DestroyWrappedObject kModeTrack wrapper s =
     (case ProcessWrapperDestroy kModeTrack wrapper s of
        Inl e \<Rightarrow> Inl e
      | Inr s' \<Rightarrow> Inr (s'\<lparr>live_wrappers := (live_wrappers s')(wrapper := None)\<rparr>))"

section \<open>The instance and its reference count\<close>

text \<open>
  The static members: \<open>instance_\<close> of this class and the reference count that the comments
  of \<open>CreateInstance\<close> and \<open>DestroyInstance\<close> speak of.
\<close>

record instance_state =
  instance_ptr :: "D3D12CaptureManager pointer"
  instance_count :: nat

definition Get :: "instance_state \<Rightarrow> D3D12CaptureManager pointer" where
  "Get g = instance_ptr g"

text \<open>
  Modelled from the spec: the constructor, \<open>CreateInstance\<close> and \<open>DestroyInstance\<close> are
  declared in the header and defined in \<open>d3d12_capture_manager.cpp\<close>, which is not part of
  the sources at hand. The spec: "first acquisition constructs the instance and
  zero-initializes dispatch tables/flags; each subsequent acquisition increments a count;
  release decrements and destructs only at zero". The header's comments: "Creates the
  capture manager instance if none exists, or increments a reference count if an instance
  already exists" and "Decrement the instance reference count, releasing resources when the
  count reaches zero. Ignored if the count is already zero."
\<close>

definition new_D3D12CaptureManager :: D3D12CaptureManager where
  "new_D3D12CaptureManager =
     \<lparr>capture_mode = 0, thread_data = (\<lambda>_. nullptr), call_scope = (\<lambda>_. 0),
      state_tracker = nullptr, mapped_resources = [],
      track_enable_debug_layer_object_id = 0,
      track_enable_dred_info =
        \<lparr>dred_settings1_object_id = 0,
         set_auto_breadcrumbs_enablement = D3D12_DRED_ENABLEMENT_SYSTEM_CONTROLLED,
         set_breadcrumb_context_enablement = D3D12_DRED_ENABLEMENT_SYSTEM_CONTROLLED,
         set_page_fault_enablement = D3D12_DRED_ENABLEMENT_SYSTEM_CONTROLLED\<rparr>,
      ended_calls = [], frame_captures = [], screenshots_enabled = False,
      live_wrappers = Map.empty, child_images = (\<lambda>_. [])\<rparr>"

definition CreateInstance :: "instance_state \<Rightarrow> bool \<times> instance_state" where
  "CreateInstance g =
     (if instance_ptr g = nullptr
      then (True, \<lparr>instance_ptr = Ptr new_D3D12CaptureManager, instance_count = 1\<rparr>)
      else (True, g\<lparr>instance_count := instance_count g + 1\<rparr>))"

definition DestroyInstance :: "instance_state \<Rightarrow> instance_state" where
  "DestroyInstance g =
     (if instance_count g = 0 then g
      else if instance_count g - 1 = 0
        then \<lparr>instance_ptr = nullptr, instance_count = 0\<rparr>
        else g\<lparr>instance_count := instance_count g - 1\<rparr>)"

definition no_instance :: instance_state where
  "no_instance = \<lparr>instance_ptr = nullptr, instance_count = 0\<rparr>"

text \<open>One acquisition: \<open>CreateInstance\<close> with its result dropped.\<close>

definition acquire :: "instance_state \<Rightarrow> instance_state" where
  "acquire g = snd (CreateInstance g)"

section \<open>States for the examples\<close>

text \<open>
  The constant \<open>kModeTrack\<close> is taken as 2 in the examples. \<open>tracking_state\<close> is a manager
  in a mode with this bit set, with a state tracker that has received nothing and with the
  data of every thread at call id 7 and parameter bytes 1, 2; the swap chain at address 20
  has the two buffers 30 and 31, and the wrapper at address 40 is live with capture id 77.
  \<open>recording_state\<close> is the same manager in a mode without the bit and without a tracker.
\<close>

definition tracking_state :: D3D12CaptureManager where
  "tracking_state = new_D3D12CaptureManager
     \<lparr>capture_mode := 3,
      thread_data := (\<lambda>_. Ptr \<lparr>call_id = 7, parameter_buffer = [1, 2]\<rparr>),
      state_tracker := Ptr \<lparr>received = []\<rparr>,
      screenshots_enabled := True,
      live_wrappers := [40 \<mapsto> 77],
      child_images := (\<lambda>_. [])(20 := [30, 31])\<rparr>"

definition recording_state :: D3D12CaptureManager where
  "recording_state = tracking_state\<lparr>capture_mode := 1, state_tracker := nullptr\<rparr>"

text \<open>\<open>nested_state\<close>: every thread is inside one intercepted call already.\<close>

definition nested_state :: D3D12CaptureManager where
  "nested_state = tracking_state\<lparr>call_scope := (\<lambda>_. 1)\<rparr>"

section \<open>Theorems\<close>

subsection \<open>Call scope\<close>

text \<open>
  C3. The call scope is a depth of nesting kept for each thread. \<open>IncrementCallScope\<close>
  returns the incremented depth of the calling thread and stores it, \<open>DecrementCallScope\<close>
  returns the decremented depth and stores it, an increment followed by a decrement on the
  same thread restores the depth, neither changes the depth of another thread, and the
  increment returns 1 exactly when the thread was at depth 0, that is when the call comes
  from the application and not from inside another intercepted call.
\<close>

theorem call_scope_per_thread:
  "fst (IncrementCallScope t s) = call_scope s t + 1
   \<and> call_scope (snd (IncrementCallScope t s)) t = call_scope s t + 1
   \<and> unat (fst (IncrementCallScope t s)) = (unat (call_scope s t) + 1) mod 2 ^ 32
   \<and> fst (DecrementCallScope t s) = call_scope s t - 1
   \<and> call_scope (snd (DecrementCallScope t s)) t = call_scope s t - 1
   \<and> call_scope (snd (DecrementCallScope t (snd (IncrementCallScope t s)))) t = call_scope s t
   \<and> (t' \<noteq> t \<longrightarrow>
        call_scope (snd (IncrementCallScope t s)) t' = call_scope s t'
        \<and> call_scope (snd (DecrementCallScope t s)) t' = call_scope s t')
   \<and> (fst (IncrementCallScope t s) = 1 \<longleftrightarrow> call_scope s t = 0)"
  by (simp add: IncrementCallScope_def DecrementCallScope_def Let_def unat_word_ariths)

theorem call_scope_per_thread_witness:
  "fst (IncrementCallScope 0 nested_state) = 2
   \<and> fst (DecrementCallScope 0 (snd (IncrementCallScope 0 nested_state))) = 1
   \<and> (1::nat) \<noteq> 0
   \<and> call_scope (snd (IncrementCallScope 0 nested_state)) 1 = 1
   \<and> call_scope (snd (DecrementCallScope 0 nested_state)) 1 = 1
   \<and> fst (IncrementCallScope 0 tracking_state) = 1"
  using call_scope_per_thread [of 0 nested_state 1] call_scope_per_thread [of 0 tracking_state 1]
  by (simp add: nested_state_def tracking_state_def new_D3D12CaptureManager_def
      IncrementCallScope_def DecrementCallScope_def Let_def)

text \<open>
  C10. \<open>DecrementCallScope\<close> computes on unsigned 32-bit numbers and has no floor: at depth
  0 it returns and stores 4294967295, which is \<open>2 ^ 32 - 1\<close>, and does not fail. The depth is
  then not 1, the next increment (the entry of the next call from the application) returns
  0 and not 1, and only a further increment returns 1.
\<close>

theorem DecrementCallScope_wraps:
  assumes "call_scope s t = 0"
  shows "fst (DecrementCallScope t s) = 4294967295
   \<and> unat (fst (DecrementCallScope t s)) = 2 ^ 32 - 1
   \<and> call_scope (snd (DecrementCallScope t s)) t = 4294967295
   \<and> call_scope (snd (DecrementCallScope t s)) t \<noteq> 1
   \<and> fst (IncrementCallScope t (snd (DecrementCallScope t s))) = 0
   \<and> fst (IncrementCallScope t (snd (DecrementCallScope t s))) \<noteq> 1
   \<and> fst (IncrementCallScope t (snd (IncrementCallScope t (snd (DecrementCallScope t s))))) = 1"
  using assms
  by (simp add: IncrementCallScope_def DecrementCallScope_def Let_def
      unsigned_minus_1_eq_mask mask_eq_exp_minus_1)

theorem DecrementCallScope_wraps_witness:
  "call_scope tracking_state 0 = 0
   \<and> fst (DecrementCallScope 0 tracking_state) = 4294967295
   \<and> unat (fst (DecrementCallScope 0 tracking_state)) = 4294967295
   \<and> fst (IncrementCallScope 0 (snd (DecrementCallScope 0 tracking_state))) = 0"
  using DecrementCallScope_wraps [of tracking_state 0]
  by (simp add: tracking_state_def new_D3D12CaptureManager_def)

subsection \<open>End of a call\<close>

text \<open>
  C1. Where the asserted conditions hold (\<open>tracker_ready\<close>), \<open>EndCreateMethodCallCapture\<close>
  returns, and what the state tracker receives during the call is one \<open>AddEntry\<close> if the
  tracking bit is set, the result succeeded, the handle pointer is not null and the handle
  it points to is not null, and nothing otherwise. The entry carries the interface
  identifier, the handle, the creating wrapper, and the call id and the parameter bytes of
  the calling thread.
\<close>

theorem EndCreateMethodCallCapture_registers_iff:
  assumes "tracker_ready kModeTrack t s"
  shows "\<exists>s' new.
       EndCreateMethodCallCapture kModeTrack t result riid handle create_object_wrapper s = Inr s'
     \<and> tracker_calls s' = tracker_calls s @ new
     \<and> length new =
          (if (capture_mode s AND kModeTrack) = kModeTrack \<and> 0 \<le> sint result
              \<and> handle \<noteq> nullptr \<and> handle \<noteq> Ptr nullptr then 1 else 0)
     \<and> (\<forall>c \<in> set new. \<exists>td. thread_data s t = Ptr td
            \<and> c = AddEntry riid handle (call_id td) create_object_wrapper (parameter_buffer td))"
  using assms
  by (auto simp: EndCreateMethodCallCapture_def tracker_ready_def GetCaptureMode_def
      GetThreadData_def SUCCEEDED_def tracker_calls_def tracker_receive_def
      EndMethodCallCapture_def split: pointer.splits)

theorem EndCreateMethodCallCapture_registers_iff_witness:
  "tracker_ready 2 0 tracking_state
   \<and> (\<exists>s'. EndCreateMethodCallCapture 2 0 0 5 (Ptr (Ptr 9)) 4 tracking_state = Inr s'
         \<and> tracker_calls s' = [AddEntry 5 (Ptr (Ptr 9)) 7 4 [1, 2]])
   \<and> (\<exists>s'. EndCreateMethodCallCapture 2 0 (- 1) 5 (Ptr (Ptr 9)) 4 tracking_state = Inr s'
         \<and> tracker_calls s' = [])
   \<and> (\<exists>s'. EndCreateMethodCallCapture 2 0 0 5 (Ptr nullptr) 4 tracking_state = Inr s'
         \<and> tracker_calls s' = [])"
  using EndCreateMethodCallCapture_registers_iff
          [where kModeTrack = 2 and t = 0 and s = tracking_state and result = 0 and riid = 5
             and handle = "Ptr (Ptr 9)" and create_object_wrapper = 4]
  by (simp add: tracker_ready_def tracking_state_def new_D3D12CaptureManager_def
      EndCreateMethodCallCapture_def GetCaptureMode_def GetThreadData_def SUCCEEDED_def
      tracker_calls_def tracker_receive_def EndMethodCallCapture_def)

text \<open>
  C2. Where the asserted conditions hold, \<open>EndCreateMethodCallCapture\<close> and
  \<open>EndCommandListMethodCallCapture\<close> return and each hands exactly one call record to the
  trace sink, whatever the capture mode and whatever the result; the state tracker receives
  nothing when the tracking bit is clear, and \<open>TrackCommand\<close> when it is set.
\<close>

theorem call_record_always_emitted:
  assumes "tracker_ready kModeTrack t s"
  shows "(\<exists>s'. EndCreateMethodCallCapture kModeTrack t result riid handle w s = Inr s'
            \<and> ended_calls s' = ended_calls s @ [t]
            \<and> ((capture_mode s AND kModeTrack) \<noteq> kModeTrack \<longrightarrow>
                  tracker_calls s' = tracker_calls s))
       \<and> (\<exists>s'. EndCommandListMethodCallCapture kModeTrack t list_wrapper func args s = Inr s'
            \<and> ended_calls s' = ended_calls s @ [t]
            \<and> ((capture_mode s AND kModeTrack) \<noteq> kModeTrack \<longrightarrow>
                  tracker_calls s' = tracker_calls s)
            \<and> ((capture_mode s AND kModeTrack) = kModeTrack \<longrightarrow>
                  (\<exists>td. thread_data s t = Ptr td \<and> tracker_calls s' = tracker_calls s @
                     [TrackCommand list_wrapper (call_id td) (parameter_buffer td) func args])))"
  using assms
  by (auto simp: EndCreateMethodCallCapture_def EndCommandListMethodCallCapture_def
      tracker_ready_def GetCaptureMode_def GetThreadData_def SUCCEEDED_def tracker_calls_def
      tracker_receive_def EndMethodCallCapture_def split: pointer.splits)

theorem call_record_always_emitted_witness:
  "tracker_ready 2 0 recording_state \<and> (capture_mode recording_state AND 2) \<noteq> 2
   \<and> (\<exists>s'. EndCreateMethodCallCapture 2 0 (- 1) 5 (Ptr (Ptr 9)) 4 recording_state = Inr s'
         \<and> ended_calls s' = [0] \<and> tracker_calls s' = [])
   \<and> (\<exists>s'. EndCommandListMethodCallCapture 2 0 8 1 [6] recording_state = Inr s'
         \<and> ended_calls s' = [0] \<and> tracker_calls s' = [])
   \<and> tracker_ready 2 0 tracking_state \<and> (capture_mode tracking_state AND 2) = 2
   \<and> (\<exists>s'. EndCommandListMethodCallCapture 2 0 8 1 [6] tracking_state = Inr s'
         \<and> ended_calls s' = [0] \<and> tracker_calls s' = [TrackCommand 8 7 [1, 2] 1 [6]])"
  using call_record_always_emitted
          [where kModeTrack = 2 and t = 0 and s = recording_state and result = "- 1" and riid = 5
             and handle = "Ptr (Ptr 9)" and w = 4 and list_wrapper = 8 and func = 1
             and args = "[6]"]
        call_record_always_emitted
          [where kModeTrack = 2 and t = 0 and s = tracking_state and result = "- 1" and riid = 5
             and handle = "Ptr (Ptr 9)" and w = 4 and list_wrapper = 8 and func = 1
             and args = "[6]"]
  by (simp add: tracker_ready_def recording_state_def tracking_state_def
      new_D3D12CaptureManager_def EndCreateMethodCallCapture_def
      EndCommandListMethodCallCapture_def GetCaptureMode_def GetThreadData_def SUCCEEDED_def
      tracker_calls_def tracker_receive_def EndMethodCallCapture_def)

text \<open>
  C9. \<open>ProcessWrapperDestroy\<close>: with the tracking bit set (and the state tracker there), the
  tracker receives \<open>RemoveEntry\<close> and then \<open>TrackRelease\<close> for the wrapper; with the bit
  clear the state is unchanged, so the tracker receives neither.
\<close>

theorem ProcessWrapperDestroy_tracking:
  assumes "(capture_mode s AND kModeTrack) = kModeTrack \<longrightarrow> state_tracker s \<noteq> nullptr"
  shows "\<exists>s'. ProcessWrapperDestroy kModeTrack wrapper s = Inr s'
     \<and> ((capture_mode s AND kModeTrack) = kModeTrack \<longrightarrow>
           tracker_calls s' = tracker_calls s @ [RemoveEntry wrapper, TrackRelease wrapper])
     \<and> ((capture_mode s AND kModeTrack) \<noteq> kModeTrack \<longrightarrow> s' = s)"
  using assms
  by (auto simp: ProcessWrapperDestroy_def GetCaptureMode_def tracker_calls_def
      tracker_receive_def split: pointer.splits)

theorem ProcessWrapperDestroy_tracking_witness:
  "(capture_mode tracking_state AND 2) = 2 \<and> state_tracker tracking_state \<noteq> nullptr
   \<and> (\<exists>s'. ProcessWrapperDestroy 2 40 tracking_state = Inr s'
         \<and> tracker_calls s' = [RemoveEntry 40, TrackRelease 40])
   \<and> (capture_mode recording_state AND 2) \<noteq> 2
   \<and> ProcessWrapperDestroy 2 40 recording_state = Inr recording_state"
  using ProcessWrapperDestroy_tracking [of tracking_state 2 40]
    ProcessWrapperDestroy_tracking [of recording_state 2 40]
  by (simp add: recording_state_def tracking_state_def new_D3D12CaptureManager_def
      ProcessWrapperDestroy_def GetCaptureMode_def tracker_calls_def tracker_receive_def)

subsection \<open>Presentation\<close>

text \<open>
  C4. A present issued from inside another intercepted call, so that its depth after the
  increment of the stub is greater than 1: the driver's result is returned unchanged, the
  call record is handed to the trace sink, and no frame capture is requested, whether from
  the stub as a whole or from the post-process hook run at that depth.
\<close>

theorem nested_present_no_frame_capture:
  assumes "1 < fst (IncrementCallScope t s)"
  shows "fst (IDXGISwapChain_Wrapper_Present t wrapper native_result sync_interval flags s) = native_result
    \<and> ended_calls (snd (IDXGISwapChain_Wrapper_Present t wrapper native_result sync_interval flags s))
        = ended_calls s @ [t]
    \<and> frame_captures (snd (IDXGISwapChain_Wrapper_Present t wrapper native_result sync_interval flags s))
        = frame_captures s
    \<and> frame_captures (PostProcess_IDXGISwapChain_Present t wrapper native_result sync_interval flags
         (snd (IncrementCallScope t s))) = frame_captures s"
  using assms
  by (auto simp: IDXGISwapChain_Wrapper_Present_def IncrementCallScope_def DecrementCallScope_def
      Let_def EndMethodCallCapture_def PostProcess_IDXGISwapChain_Present_def PostPresent_def
      TakeScreenshot_def)

theorem nested_present_no_frame_capture_witness:
  "1 < fst (IncrementCallScope 0 nested_state)
    \<and> IDXGISwapChain_Wrapper_Present 0 20 0 1 0 nested_state
       = (0, nested_state\<lparr>ended_calls := [0], call_scope := (\<lambda>_. 1)(0 := 1)\<rparr>)
    \<and> ended_calls (snd (IDXGISwapChain_Wrapper_Present 0 20 0 1 0 nested_state)) = [0]
    \<and> frame_captures (snd (IDXGISwapChain_Wrapper_Present 0 20 0 1 0 nested_state)) = []"
  using nested_present_no_frame_capture [of 0 nested_state 20 0 1 0]
  by (simp add: nested_state_def tracking_state_def new_D3D12CaptureManager_def
       IDXGISwapChain_Wrapper_Present_def IncrementCallScope_def DecrementCallScope_def
      Let_def EndMethodCallCapture_def PostProcess_IDXGISwapChain_Present_def PostPresent_def
      TakeScreenshot_def SUCCEEDED_def)

text \<open>
  For comparison, a present from the application (depth 0 before the stub) that succeeds
  requests one frame capture when the configuration has them enabled.
\<close>

lemma top_level_present_frame_capture:
  assumes "call_scope s t = 0" "SUCCEEDED native_result" "screenshots_enabled s"
  shows "frame_captures (snd (IDXGISwapChain_Wrapper_Present t wrapper native_result sync_interval flags s))
        = frame_captures s @ [wrapper]"
  using assms
  by (auto simp: IDXGISwapChain_Wrapper_Present_def IncrementCallScope_def DecrementCallScope_def
      Let_def EndMethodCallCapture_def PostProcess_IDXGISwapChain_Present_def PostPresent_def
      TakeScreenshot_def)

subsection \<open>Mapped resources\<close>

lemma distinct_count_list_le: "distinct xs \<Longrightarrow> count_list xs x = (if x \<in> set xs then 1 else 0)"
  by (induction xs) auto

lemma count_list_set_insert:
  "distinct xs \<Longrightarrow> count_list (set_insert x xs) y = (if y = x then 1 else count_list xs y)"
  by (simp add: set_insert_def distinct_count_list_le)

lemma distinct_set_insert: "distinct xs \<Longrightarrow> distinct (set_insert x xs)"
  by (simp add: set_insert_def)

lemma distinct_set_erase: "distinct xs \<Longrightarrow> distinct (set_erase x xs)"
  by (simp add: set_erase_def distinct_removeAll)

lemma count_list_set_erase:
  "count_list (set_erase x xs) y = (if y = x then 0 else count_list xs y)"
  by (induction xs) (auto simp: set_erase_def)

text \<open>
  C5. Starting from a set of mapped resources (a list without duplicates), a successful
  \<open>Map\<close> of \<open>r\<close> with a pointer returned, an \<open>Unmap\<close> of \<open>r\<close> and a second successful
  \<open>Map\<close> of \<open>r\<close>: \<open>r\<close> is in the set exactly once after each map and not at all after the
  unmap, the set never holds a duplicate, and the entries of the other resources are as
  before. The count is a natural number and cannot be negative.
\<close>

theorem map_unmap_map_once:
  assumes "distinct (mapped_resources s)" and "SUCCEEDED result" and "SUCCEEDED result'"
  shows "let s1 = PostProcess_ID3D12Resource_Map r result subresource read_range (Ptr (Ptr p)) s;
             s2 = PreProcess_ID3D12Resource_Unmap r subresource written_range s1;
             s3 = PostProcess_ID3D12Resource_Map r result' subresource read_range' (Ptr (Ptr p')) s2
         in count_list (mapped_resources s1) r = 1
          \<and> count_list (mapped_resources s2) r = 0
          \<and> count_list (mapped_resources s3) r = 1
          \<and> distinct (mapped_resources s1) \<and> distinct (mapped_resources s2)
          \<and> distinct (mapped_resources s3)
          \<and> (\<forall>r'. r' \<noteq> r \<longrightarrow> count_list (mapped_resources s3) r' = count_list (mapped_resources s) r')"
  using assms
  by (simp add: PostProcess_ID3D12Resource_Map_def PreProcess_ID3D12Resource_Unmap_def Let_def
      count_list_set_insert count_list_set_erase distinct_set_insert distinct_set_erase)

theorem map_unmap_map_once_witness:
  "distinct (mapped_resources tracking_state) \<and> SUCCEEDED 0 \<and> SUCCEEDED 1
   \<and> (let s1 = PostProcess_ID3D12Resource_Map 50 0 0 nullptr (Ptr (Ptr 4096)) tracking_state;
             s2 = PreProcess_ID3D12Resource_Unmap 50 0 nullptr s1;
             s3 = PostProcess_ID3D12Resource_Map 50 1 0 nullptr (Ptr (Ptr 8192)) s2
         in mapped_resources s1 = [50] \<and> mapped_resources s2 = [] \<and> mapped_resources s3 = [50]
          \<and> count_list (mapped_resources s1) 50 = 1
          \<and> count_list (mapped_resources s2) 50 = 0
          \<and> count_list (mapped_resources s3) 50 = 1
          \<and> (51::nat) \<noteq> 50 \<and> count_list (mapped_resources s3) 51 = 0)"
  using map_unmap_map_once [of tracking_state 0 1 50 0 nullptr 4096 nullptr nullptr 8192]
  by (simp add: tracking_state_def new_D3D12CaptureManager_def SUCCEEDED_def
      PostProcess_ID3D12Resource_Map_def PreProcess_ID3D12Resource_Unmap_def Let_def
      set_insert_def set_erase_def)

subsection \<open>Swap chain buffers\<close>

lemma for_each_ProcessWrapperDestroy_track:
  assumes "(capture_mode s AND kModeTrack) = kModeTrack" and "state_tracker s = Ptr tr"
  shows "for_each (ProcessWrapperDestroy kModeTrack) bs s =
     Inr (s\<lparr>state_tracker := Ptr (tr\<lparr>received := received tr
            @ concat (map (\<lambda>b. [RemoveEntry b, TrackRelease b]) bs)\<rparr>)\<rparr>)"
  using assms
proof (induction bs arbitrary: s tr)
  case Nil
  then show ?case by simp
next
  case (Cons b bs)
  let ?released = "\<lambda>bs. concat (map (\<lambda>b. [RemoveEntry b, TrackRelease b]) bs)"
  let ?tr = "tr\<lparr>received := received tr @ [RemoveEntry b, TrackRelease b]\<rparr>"
  let ?s = "s\<lparr>state_tracker := Ptr ?tr\<rparr>"
  have step: "ProcessWrapperDestroy kModeTrack b s = Inr ?s"
    using Cons.prems by (simp add: ProcessWrapperDestroy_def GetCaptureMode_def tracker_receive_def)
  have "for_each (ProcessWrapperDestroy kModeTrack) (b # bs) s =
        for_each (ProcessWrapperDestroy kModeTrack) bs ?s"
    by (simp add: step)
  also have "\<dots> = Inr (?s\<lparr>state_tracker := Ptr (?tr\<lparr>received := received ?tr @ ?released bs\<rparr>)\<rparr>)"
    by (rule Cons.IH) (use Cons.prems in simp_all)
  also have "\<dots> = Inr (s\<lparr>state_tracker := Ptr (tr\<lparr>received := received tr @ ?released (b # bs)\<rparr>)\<rparr>)"
    by simp
  finally show ?case .
qed

lemma filter_RemoveEntry_released:
  "filter is_RemoveEntry (concat (map (\<lambda>b. [RemoveEntry b, TrackRelease b]) bs)) = map RemoveEntry bs"
  by (induction bs) simp_all

lemma filter_AddEntry_released:
  "filter is_AddEntry (concat (map (\<lambda>b. [RemoveEntry b, TrackRelease b]) bs)) = []"
  by (induction bs) simp_all

lemma for_each_AcquireSwapChainImage_track:
  assumes "(capture_mode s AND kModeTrack) = kModeTrack" and "state_tracker s = Ptr tr"
    and "thread_data s t = Ptr td"
  shows "for_each (AcquireSwapChainImage kModeTrack t wrapper get_buffer) ixs s =
     Inr (s\<lparr>child_images := (child_images s)(wrapper := child_images s wrapper @ map get_buffer ixs),
            state_tracker := Ptr (tr\<lparr>received := received tr
              @ map (\<lambda>i. AddEntry IID_ID3D12Resource (Ptr (Ptr (get_buffer i))) (call_id td)
                       wrapper (parameter_buffer td)) ixs\<rparr>)\<rparr>)"
  using assms
proof (induction ixs arbitrary: s tr)
  case Nil
  then show ?case by simp
next
  case (Cons i ixs)
  let ?entry = "\<lambda>i. AddEntry IID_ID3D12Resource (Ptr (Ptr (get_buffer i))) (call_id td)
                  wrapper (parameter_buffer td)"
  let ?tr = "tr\<lparr>received := received tr @ [?entry i]\<rparr>"
  let ?s = "s\<lparr>child_images := (child_images s)(wrapper := child_images s wrapper @ [get_buffer i]),
              state_tracker := Ptr ?tr\<rparr>"
  have step: "AcquireSwapChainImage kModeTrack t wrapper get_buffer i s = Inr ?s"
    using Cons.prems
    by (simp add: AcquireSwapChainImage_def GetCaptureMode_def GetThreadData_def
        tracker_receive_def Let_def)
  have "for_each (AcquireSwapChainImage kModeTrack t wrapper get_buffer) (i # ixs) s =
        for_each (AcquireSwapChainImage kModeTrack t wrapper get_buffer) ixs ?s"
    by (simp add: step)
  also have "\<dots> =
     Inr (?s\<lparr>child_images := (child_images ?s)(wrapper := child_images ?s wrapper @ map get_buffer ixs),
            state_tracker := Ptr (?tr\<lparr>received := received ?tr @ map ?entry ixs\<rparr>)\<rparr>)"
    by (rule Cons.IH) (use Cons.prems in simp_all)
  also have "\<dots> =
     Inr (s\<lparr>child_images := (child_images s)(wrapper := child_images s wrapper @ map get_buffer (i # ixs)),
            state_tracker := Ptr (tr\<lparr>received := received tr @ map ?entry (i # ixs)\<rparr>)\<rparr>)"
    by simp
  finally show ?case .
qed

lemma filter_AddEntry_acquired:
  "filter is_AddEntry (map (\<lambda>i. AddEntry a (f i) c w p) ixs) = map (\<lambda>i. AddEntry a (f i) c w p) ixs"
  by (induction ixs) simp_all

lemma filter_RemoveEntry_acquired:
  "filter is_RemoveEntry (map (\<lambda>i. AddEntry a (f i) c w p) ixs) = []"
  by (induction ixs) simp_all

text \<open>
  C6. A resize of a swap chain while tracking, with the state tracker and the thread's data
  there, and a driver that reports success. The pre-process hook, which runs before the
  driver's resize, deregisters every buffer of the current array (one \<open>RemoveEntry\<close> for
  each, in order, and no \<open>AddEntry\<close>) and leaves the array empty; the post-process hook
  then registers the new buffers and removes none: the state tracker receives, for each
  index below the new buffer count and in order, one \<open>AddEntry\<close> for the buffer the driver
  gives at that index, with the swap chain as the creating object and the call id and the
  parameter bytes of the calling thread, and nothing else; the array holds these buffers
  in the same order and has the length of the new buffer count. From 2 buffers to 3 this is
  2 deregistrations, 3 registrations and an array of length 3.
\<close>

theorem resize_buffers_reregisters:
  assumes track: "(capture_mode s AND kModeTrack) = kModeTrack"
    and tracker: "state_tracker s \<noteq> nullptr"
    and data: "thread_data s t \<noteq> nullptr"
    and ok: "SUCCEEDED result"
  shows "\<exists>s1 s2 removed added td.
      PreProcess_IDXGISwapChain_ResizeBuffers kModeTrack wrapper buffer_count width height
        new_format flags s = Inr s1
    \<and> child_images s1 wrapper = []
    \<and> tracker_calls s1 = tracker_calls s @ removed
    \<and> removed = concat (map (\<lambda>b. [RemoveEntry b, TrackRelease b]) (child_images s wrapper))
    \<and> filter is_RemoveEntry removed = map RemoveEntry (child_images s wrapper)
    \<and> filter is_AddEntry removed = []
    \<and> PostProcess_IDXGISwapChain_ResizeBuffers kModeTrack t wrapper get_buffer result buffer_count
        width height new_format flags s1 = Inr s2
    \<and> tracker_calls s2 = tracker_calls s1 @ added
    \<and> thread_data s t = Ptr td
    \<and> added = map (\<lambda>i. AddEntry IID_ID3D12Resource (Ptr (Ptr (get_buffer i))) (call_id td)
                        wrapper (parameter_buffer td)) [0..<unat buffer_count]
    \<and> filter is_AddEntry added = added
    \<and> length (filter is_AddEntry added) = unat buffer_count
    \<and> filter is_RemoveEntry added = []
    \<and> child_images s2 wrapper = map get_buffer [0..<unat buffer_count]
    \<and> length (child_images s2 wrapper) = unat buffer_count"
proof -
  from tracker obtain tr where tr: "state_tracker s = Ptr tr" by (cases "state_tracker s") auto
  from data obtain td where td: "thread_data s t = Ptr td" by (cases "thread_data s t") auto
  let ?removed = "concat (map (\<lambda>b. [RemoveEntry b, TrackRelease b]) (child_images s wrapper))"
  let ?tr1 = "tr\<lparr>received := received tr @ ?removed\<rparr>"
  let ?s1 = "s\<lparr>state_tracker := Ptr ?tr1, child_images := (child_images s)(wrapper := [])\<rparr>"
  let ?added = "map (\<lambda>i. AddEntry IID_ID3D12Resource (Ptr (Ptr (get_buffer i))) (call_id td)
                       wrapper (parameter_buffer td)) [0..<unat buffer_count]"
  let ?s2 = "?s1\<lparr>child_images := (child_images ?s1)(wrapper := map get_buffer [0..<unat buffer_count]),
              state_tracker := Ptr (?tr1\<lparr>received := received ?tr1 @ ?added\<rparr>)\<rparr>"
  have pre: "PreProcess_IDXGISwapChain_ResizeBuffers kModeTrack wrapper buffer_count width height
        new_format flags s = Inr ?s1"
    by (simp add: PreProcess_IDXGISwapChain_ResizeBuffers_def ReleaseSwapChainImages_def
        for_each_ProcessWrapperDestroy_track [OF track tr])
  have track1: "(capture_mode ?s1 AND kModeTrack) = kModeTrack" using track by simp
  have tr1: "state_tracker ?s1 = Ptr ?tr1" by simp
  have td1: "thread_data ?s1 t = Ptr td" using td by simp
  have post: "PostProcess_IDXGISwapChain_ResizeBuffers kModeTrack t wrapper get_buffer result
        buffer_count width height new_format flags ?s1 = Inr ?s2"
    using ok
    by (simp add: PostProcess_IDXGISwapChain_ResizeBuffers_def ResizeSwapChainImages_def
        PreAcquireSwapChainImages_def
        for_each_AcquireSwapChainImage_track [where s = ?s1 and tr = ?tr1 and td = td, simplified, OF track td])
  have "child_images ?s1 wrapper = []" by simp
  moreover have "tracker_calls ?s1 = tracker_calls s @ ?removed"
    by (simp add: tracker_calls_def tr)
  moreover have "tracker_calls ?s2 = tracker_calls ?s1 @ ?added"
    by (simp add: tracker_calls_def)
  moreover have "filter is_AddEntry ?added = ?added"
    by (rule filter_AddEntry_acquired)
  moreover have "length (filter is_AddEntry ?added) = unat buffer_count"
    by (simp add: filter_AddEntry_acquired)
  moreover have "child_images ?s2 wrapper = map get_buffer [0..<unat buffer_count]" by simp
  ultimately show ?thesis
    using pre post td filter_RemoveEntry_released filter_AddEntry_released
      filter_RemoveEntry_acquired
    by (intro exI [of _ ?s1] exI [of _ ?s2] exI [of _ ?removed] exI [of _ ?added]
          exI [of _ td]) simp
qed

theorem resize_buffers_reregisters_witness:
  "(capture_mode tracking_state AND 2) = 2 \<and> state_tracker tracking_state \<noteq> nullptr
   \<and> thread_data tracking_state 0 \<noteq> nullptr \<and> SUCCEEDED 0
   \<and> length (child_images tracking_state 20) = 2
   \<and> (\<exists>s1 s2 removed added.
      PreProcess_IDXGISwapChain_ResizeBuffers 2 20 3 640 480 0 0 tracking_state = Inr s1
    \<and> child_images s1 20 = []
    \<and> tracker_calls s1 = tracker_calls tracking_state @ removed
    \<and> removed = [RemoveEntry 30, TrackRelease 30, RemoveEntry 31, TrackRelease 31]
    \<and> filter is_RemoveEntry removed = [RemoveEntry 30, RemoveEntry 31]
    \<and> filter is_AddEntry removed = []
    \<and> PostProcess_IDXGISwapChain_ResizeBuffers 2 0 20 (\<lambda>i. 60 + i) 0 3 640 480 0 0 s1 = Inr s2
    \<and> tracker_calls s2 = tracker_calls s1 @ added
    \<and> added = [AddEntry IID_ID3D12Resource (Ptr (Ptr 60)) 7 20 [1, 2],
                 AddEntry IID_ID3D12Resource (Ptr (Ptr 61)) 7 20 [1, 2],
                 AddEntry IID_ID3D12Resource (Ptr (Ptr 62)) 7 20 [1, 2]]
    \<and> length (filter is_AddEntry added) = 3
    \<and> filter is_RemoveEntry added = []
    \<and> child_images s2 20 = [60, 61, 62]
    \<and> length (child_images s2 20) = 3)"
proof -
  have h: "(capture_mode tracking_state AND 2) = 2" "state_tracker tracking_state \<noteq> nullptr"
    "thread_data tracking_state 0 \<noteq> nullptr" "SUCCEEDED 0"
    by (simp_all add: tracking_state_def new_D3D12CaptureManager_def SUCCEEDED_def)
  have images: "child_images tracking_state 20 = [30, 31]"
    by (simp add: tracking_state_def new_D3D12CaptureManager_def)
  have upt: "[0..<3] = [0, 1, 2]" by (simp add: upt_rec)
  have data: "thread_data tracking_state 0 = Ptr \<lparr>call_id = 7, parameter_buffer = [1, 2]\<rparr>"
    by (simp add: tracking_state_def new_D3D12CaptureManager_def)
  show ?thesis
    using h resize_buffers_reregisters [where s = tracking_state and kModeTrack = 2 and t = 0 and result = 0
        and wrapper = 20 and buffer_count = 3 and width = 640 and height = 480
        and new_format = 0 and flags = 0 and get_buffer = "\<lambda>i. 60 + i", OF h]
    by (auto simp: images upt data)
qed

subsection \<open>Diagnostic settings\<close>

text \<open>
  C7. A live wrapper with capture id \<open>object_id\<close> configures the debug layer or one of the
  three settings of the device-removal diagnostics and is released right after. The wrapper
  is then gone from the store of live objects, and the accessors still return what was
  configured: \<open>GetEnableDebugLayerObjectId\<close> the object id, \<open>GetEnableDREDInfo\<close> the object
  id and the enablement value.
\<close>

theorem diagnostic_settings_survive_release:
  assumes "live_wrappers s w = Some object_id"
    and "(capture_mode s AND kModeTrack) = kModeTrack \<longrightarrow> state_tracker s \<noteq> nullptr"
  shows "(\<exists>s1 s2. PostProcess_ID3D12Debug_EnableDebugLayer w s = Inr s1
            \<and> DestroyWrappedObject kModeTrack w s1 = Inr s2
            \<and> live_wrappers s2 w = None
            \<and> GetEnableDebugLayerObjectId s2 = object_id)
       \<and> (\<exists>s1 s2. PostProcess_ID3D12DeviceRemovedExtendedDataSettings_SetAutoBreadcrumbsEnablement
                      w enablement s = Inr s1
            \<and> DestroyWrappedObject kModeTrack w s1 = Inr s2
            \<and> live_wrappers s2 w = None
            \<and> GetEnableDREDInfo s2 = (track_enable_dred_info s)
                 \<lparr>dred_settings1_object_id := object_id,
                  set_auto_breadcrumbs_enablement := enablement\<rparr>)
       \<and> (\<exists>s1 s2. PostProcess_ID3D12DeviceRemovedExtendedDataSettings1_SetBreadcrumbContextEnablement
                      w enablement s = Inr s1
            \<and> DestroyWrappedObject kModeTrack w s1 = Inr s2
            \<and> live_wrappers s2 w = None
            \<and> GetEnableDREDInfo s2 = (track_enable_dred_info s)
                 \<lparr>dred_settings1_object_id := object_id,
                  set_breadcrumb_context_enablement := enablement\<rparr>)
       \<and> (\<exists>s1 s2. PostProcess_ID3D12DeviceRemovedExtendedDataSettings_SetPageFaultEnablement
                      w enablement s = Inr s1
            \<and> DestroyWrappedObject kModeTrack w s1 = Inr s2
            \<and> live_wrappers s2 w = None
            \<and> GetEnableDREDInfo s2 = (track_enable_dred_info s)
                 \<lparr>dred_settings1_object_id := object_id,
                  set_page_fault_enablement := enablement\<rparr>)"
proof -
  have destroy: "\<exists>s2. DestroyWrappedObject kModeTrack w s1 = Inr s2 \<and> live_wrappers s2 w = None
      \<and> track_enable_debug_layer_object_id s2 = track_enable_debug_layer_object_id s1
      \<and> track_enable_dred_info s2 = track_enable_dred_info s1"
    if "capture_mode s1 = capture_mode s" "state_tracker s1 = state_tracker s" for s1
    using that assms(2)
    by (auto simp: DestroyWrappedObject_def ProcessWrapperDestroy_def GetCaptureMode_def
        split: pointer.splits)
  have debug_layer: "\<exists>s1 s2. PostProcess_ID3D12Debug_EnableDebugLayer w s = Inr s1
            \<and> DestroyWrappedObject kModeTrack w s1 = Inr s2
            \<and> live_wrappers s2 w = None
            \<and> GetEnableDebugLayerObjectId s2 = object_id"
    using assms(1) destroy [of "s\<lparr>track_enable_debug_layer_object_id := object_id\<rparr>"]
    by (auto simp: PostProcess_ID3D12Debug_EnableDebugLayer_def GetEnableDebugLayerObjectId_def)
  have auto_breadcrumbs: "\<exists>s1 s2.
        PostProcess_ID3D12DeviceRemovedExtendedDataSettings_SetAutoBreadcrumbsEnablement
          w enablement s = Inr s1
      \<and> DestroyWrappedObject kModeTrack w s1 = Inr s2
      \<and> live_wrappers s2 w = None
      \<and> GetEnableDREDInfo s2 = (track_enable_dred_info s)
           \<lparr>dred_settings1_object_id := object_id,
            set_auto_breadcrumbs_enablement := enablement\<rparr>"
    using assms(1) destroy [of "s\<lparr>track_enable_dred_info := (track_enable_dred_info s)
                 \<lparr>dred_settings1_object_id := object_id,
                  set_auto_breadcrumbs_enablement := enablement\<rparr>\<rparr>"]
    by (auto simp: GetEnableDREDInfo_def
        PostProcess_ID3D12DeviceRemovedExtendedDataSettings_SetAutoBreadcrumbsEnablement_def)
  have breadcrumb_context: "\<exists>s1 s2.
        PostProcess_ID3D12DeviceRemovedExtendedDataSettings1_SetBreadcrumbContextEnablement
          w enablement s = Inr s1
      \<and> DestroyWrappedObject kModeTrack w s1 = Inr s2
      \<and> live_wrappers s2 w = None
      \<and> GetEnableDREDInfo s2 = (track_enable_dred_info s)
           \<lparr>dred_settings1_object_id := object_id,
            set_breadcrumb_context_enablement := enablement\<rparr>"
    using assms(1) destroy [of "s\<lparr>track_enable_dred_info := (track_enable_dred_info s)
                 \<lparr>dred_settings1_object_id := object_id,
                  set_breadcrumb_context_enablement := enablement\<rparr>\<rparr>"]
    by (auto simp: GetEnableDREDInfo_def
        PostProcess_ID3D12DeviceRemovedExtendedDataSettings1_SetBreadcrumbContextEnablement_def)
  have page_fault: "\<exists>s1 s2.
        PostProcess_ID3D12DeviceRemovedExtendedDataSettings_SetPageFaultEnablement
          w enablement s = Inr s1
      \<and> DestroyWrappedObject kModeTrack w s1 = Inr s2
      \<and> live_wrappers s2 w = None
      \<and> GetEnableDREDInfo s2 = (track_enable_dred_info s)
           \<lparr>dred_settings1_object_id := object_id,
            set_page_fault_enablement := enablement\<rparr>"
    using assms(1) destroy [of "s\<lparr>track_enable_dred_info := (track_enable_dred_info s)
                 \<lparr>dred_settings1_object_id := object_id,
                  set_page_fault_enablement := enablement\<rparr>\<rparr>"]
    by (auto simp: GetEnableDREDInfo_def
        PostProcess_ID3D12DeviceRemovedExtendedDataSettings_SetPageFaultEnablement_def)
  from debug_layer auto_breadcrumbs breadcrumb_context page_fault show ?thesis by blast
qed

theorem diagnostic_settings_survive_release_witness:
  "live_wrappers tracking_state 40 = Some 77
   \<and> (capture_mode tracking_state AND 2) = 2 \<and> state_tracker tracking_state \<noteq> nullptr
   \<and> (\<exists>s1 s2. PostProcess_ID3D12Debug_EnableDebugLayer 40 tracking_state = Inr s1
          \<and> DestroyWrappedObject 2 40 s1 = Inr s2
          \<and> live_wrappers s2 40 = None
          \<and> GetEnableDebugLayerObjectId s2 = 77)
   \<and> (\<exists>s1 s2. PostProcess_ID3D12DeviceRemovedExtendedDataSettings_SetPageFaultEnablement
                  40 D3D12_DRED_ENABLEMENT_FORCED_ON tracking_state = Inr s1
          \<and> DestroyWrappedObject 2 40 s1 = Inr s2
          \<and> live_wrappers s2 40 = None
          \<and> dred_settings1_object_id (GetEnableDREDInfo s2) = 77
          \<and> set_page_fault_enablement (GetEnableDREDInfo s2) = D3D12_DRED_ENABLEMENT_FORCED_ON)"
proof -
  have h: "live_wrappers tracking_state 40 = Some 77"
    "(capture_mode tracking_state AND 2) = 2 \<longrightarrow> state_tracker tracking_state \<noteq> nullptr"
    by (simp_all add: tracking_state_def new_D3D12CaptureManager_def)
  have h': "(capture_mode tracking_state AND 2) = 2" "state_tracker tracking_state \<noteq> nullptr"
    by (simp_all add: tracking_state_def new_D3D12CaptureManager_def)
  from diagnostic_settings_survive_release
         [OF h, where enablement = D3D12_DRED_ENABLEMENT_FORCED_ON]
  have "(\<exists>s1 s2. PostProcess_ID3D12Debug_EnableDebugLayer 40 tracking_state = Inr s1
          \<and> DestroyWrappedObject 2 40 s1 = Inr s2
          \<and> live_wrappers s2 40 = None
          \<and> GetEnableDebugLayerObjectId s2 = 77)"
    and "(\<exists>s1 s2. PostProcess_ID3D12DeviceRemovedExtendedDataSettings_SetPageFaultEnablement
                  40 D3D12_DRED_ENABLEMENT_FORCED_ON tracking_state = Inr s1
          \<and> DestroyWrappedObject 2 40 s1 = Inr s2
          \<and> live_wrappers s2 40 = None
          \<and> GetEnableDREDInfo s2 = (track_enable_dred_info tracking_state)
               \<lparr>dred_settings1_object_id := 77,
                set_page_fault_enablement := D3D12_DRED_ENABLEMENT_FORCED_ON\<rparr>)"
    by blast+
  then show ?thesis using h h' by fastforce
qed

subsection \<open>The instance and its reference count\<close>

lemma acquire_n:
  "(acquire ^^ n) no_instance =
     (if n = 0 then no_instance
      else \<lparr>instance_ptr = Ptr new_D3D12CaptureManager, instance_count = n\<rparr>)"
proof (induction n)
  case 0
  then show ?case by simp
next
  case (Suc n)
  then show ?case
    by (cases n) (simp_all add: acquire_def CreateInstance_def no_instance_def)
qed

lemma release_m:
  assumes "instance_ptr g = nullptr \<longleftrightarrow> instance_count g = 0"
  shows "(DestroyInstance ^^ m) g =
     (if instance_count g \<le> m then no_instance else g\<lparr>instance_count := instance_count g - m\<rparr>)"
  using assms
proof (induction m)
  case 0
  then show ?case by (cases g) (auto simp: no_instance_def)
next
  case (Suc m)
  then show ?case
    by (auto simp: DestroyInstance_def no_instance_def)
qed

text \<open>
  C8. The first \<open>CreateInstance\<close> constructs the instance with count 1; a
  \<open>CreateInstance\<close> with an instance there leaves the instance and adds one to the count;
  \<open>DestroyInstance\<close> is ignored at count 0, takes one from a count above 1 and leaves the
  instance, and at count 1 destructs the instance. After \<open>n\<close> acquisitions and \<open>m\<close>
  releases the count is \<open>n - m\<close> (0 when \<open>m\<close> exceeds \<open>n\<close>) and there is an instance exactly
  when \<open>m < n\<close>.
\<close>

theorem instance_reference_count:
  "CreateInstance no_instance =
     (True, \<lparr>instance_ptr = Ptr new_D3D12CaptureManager, instance_count = 1\<rparr>)
   \<and> (Get g \<noteq> nullptr \<longrightarrow>
        CreateInstance g = (True, g\<lparr>instance_count := instance_count g + 1\<rparr>)
        \<and> Get (snd (CreateInstance g)) = Get g)
   \<and> (instance_count g = 0 \<longrightarrow> DestroyInstance g = g)
   \<and> (instance_count g = 1 \<longrightarrow> Get (DestroyInstance g) = nullptr
        \<and> instance_count (DestroyInstance g) = 0)
   \<and> (1 < instance_count g \<longrightarrow>
        DestroyInstance g = g\<lparr>instance_count := instance_count g - 1\<rparr>
        \<and> Get (DestroyInstance g) = Get g)
   \<and> instance_count ((DestroyInstance ^^ m) ((acquire ^^ n) no_instance)) = n - m
   \<and> (Get ((DestroyInstance ^^ m) ((acquire ^^ n) no_instance)) = nullptr \<longleftrightarrow> n \<le> m)"
proof -
  define h where "h = (acquire ^^ n) no_instance"
  have cnt: "instance_count h = n"
    unfolding h_def acquire_n by (simp add: no_instance_def)
  have ptr: "instance_ptr h = (if n = 0 then nullptr else Ptr new_D3D12CaptureManager)"
    unfolding h_def acquire_n by (simp add: no_instance_def)
  have rel: "(DestroyInstance ^^ m) h =
      (if instance_count h \<le> m then no_instance else h\<lparr>instance_count := instance_count h - m\<rparr>)"
    by (rule release_m) (simp add: cnt ptr)
  have "instance_count ((DestroyInstance ^^ m) h) = n - m"
    by (simp add: rel cnt no_instance_def)
  moreover have "Get ((DestroyInstance ^^ m) h) = nullptr \<longleftrightarrow> n \<le> m"
    by (simp add: rel cnt ptr no_instance_def Get_def)
  ultimately show ?thesis
    unfolding h_def
    by (simp add: CreateInstance_def DestroyInstance_def no_instance_def Get_def)
qed

theorem instance_reference_count_witness:
  "Get (snd (CreateInstance no_instance)) \<noteq> nullptr
   \<and> CreateInstance (snd (CreateInstance no_instance)) =
        (True, \<lparr>instance_ptr = Ptr new_D3D12CaptureManager, instance_count = 2\<rparr>)
   \<and> DestroyInstance no_instance = no_instance
   \<and> DestroyInstance (snd (CreateInstance (snd (CreateInstance no_instance)))) =
        \<lparr>instance_ptr = Ptr new_D3D12CaptureManager, instance_count = 1\<rparr>
   \<and> DestroyInstance (snd (CreateInstance no_instance)) = no_instance
   \<and> instance_count ((DestroyInstance ^^ 2) ((acquire ^^ 3) no_instance)) = 1
   \<and> Get ((DestroyInstance ^^ 2) ((acquire ^^ 3) no_instance)) \<noteq> nullptr
   \<and> Get ((DestroyInstance ^^ 3) ((acquire ^^ 3) no_instance)) = nullptr"
  using instance_reference_count [of "snd (CreateInstance no_instance)" 2 3]
    instance_reference_count [of "snd (CreateInstance (snd (CreateInstance no_instance)))" 3 3]
    instance_reference_count [of no_instance 0 0]
  by (simp add: CreateInstance_def DestroyInstance_def no_instance_def Get_def)

end
